theory Spec2Isabelle
  imports Main
begin

section \<open>Data model\<close>

text \<open>
  A shallow embedding of the Privacy Badger content policy (\<^verbatim>\<open>lib/contentPolicy.js\<close>),
  of the helpers it uses from \<^verbatim>\<open>lib/utils.js\<close>, and of the per-window settings
  ledger and the staging area of user edits in \<^verbatim>\<open>lib/ui.js\<close>.

  JavaScript exceptions are values: a call either returns or throws.
  \<open>TypeError\<close> is the engine's own error for reading a property of \<^verbatim>\<open>null\<close>;
  \<open>ExternalError\<close> is whatever a platform service raises.
\<close>

datatype exn = TypeError | ExternalError

datatype 'a outcome = Returns 'a | Throws exn

text \<open>An \<^verbatim>\<open>nsIURI\<close>, with the three attributes the policy reads.\<close>

record nsIURI =
  scheme :: string
  host :: string
  spec :: string

text \<open>
  Windows. \<^verbatim>\<open>window.top\<close>, \<^verbatim>\<open>topWin.location\<close> may be missing
  (\<^verbatim>\<open>null\<close> or \<^verbatim>\<open>undefined\<close>), which is \<open>None\<close>; a missing
  \<^verbatim>\<open>href\<close> is the empty string, falsy in JavaScript as well. The \<open>key\<close> of
  a top window is its object identity, which is what the \<^verbatim>\<open>WeakMap\<close> is keyed by.
\<close>

record dom_location =
  href :: string

record top_window =
  key :: nat
  location :: "dom_location option"

record dom_window =
  win_top :: "top_window option"

text \<open>
  The load context handed to \<^verbatim>\<open>shouldLoad\<close>: a window, a DOM node (with its
  \<^verbatim>\<open>ownerDocument\<close> and its own \<^verbatim>\<open>defaultView\<close>), or anything else, for which
  \<^verbatim>\<open>QueryInterface(Ci.nsIHttpChannel)\<close> either succeeds or throws.
\<close>

datatype document = Document (doc_defaultView: "dom_window option")

datatype load_context =
    DOMWindow dom_window
  | DOMNode (ownerDocument: "document option") (defaultView: "dom_window option")
  | OtherContext (queryInterfaceSucceeds: bool)

type_synonym nsIChannel = nat

text \<open>
  The platform services the code calls and that are not part of the sources:
  \<^verbatim>\<open>mozIThirdPartyUtil\<close> and the URI constructor \<^verbatim>\<open>ABPUtils.makeURI\<close>. They are
  parameters of the model; each may throw. \<^verbatim>\<open>makeURI\<close> may also return \<^verbatim>\<open>null\<close>.
  The last field is the set of property names of \<^verbatim>\<open>Object.prototype\<close> in the
  engine (\<^verbatim>\<open>constructor\<close>, \<^verbatim>\<open>toString\<close>, ...): every plain object inherits them.
\<close>

record platform =
  abp_makeURI :: "string \<Rightarrow> nsIURI option outcome"
  tpu_isThirdPartyURI :: "nsIURI option \<Rightarrow> nsIURI option \<Rightarrow> bool outcome"
  tpu_isThirdPartyChannel :: "nsIChannel \<Rightarrow> bool outcome"
  tpu_getBaseDomain :: "nsIURI \<Rightarrow> string outcome"
  object_prototype_keys :: "string set"

text \<open>
  \<^verbatim>\<open>sdk/simple-storage\<close>: five plain objects used as sets of keys. Each field is
  the set of own keys of the object.
\<close>

record storage =
  preloads :: "string set"
  blockedOrigins :: "string set"
  userRed :: "string set"
  userYellow :: "string set"
  userGreen :: "string set"

text \<open>
  \<^verbatim>\<open>key in obj\<close>, as in \<^verbatim>\<open>host in storage.userRed\<close>: true for an own key of the
  object and for a key it inherits from \<^verbatim>\<open>Object.prototype\<close>.
\<close>

definition js_in :: "platform \<Rightarrow> string \<Rightarrow> string set \<Rightarrow> bool" where
  "js_in P k obj = (k \<in> obj \<or> k \<in> object_prototype_keys P)"

text \<open>
  A ledger table is a JavaScript object: origin to action string, or the marker
  \<^verbatim>\<open>{cleared: true}\<close>, whose value is a boolean.
\<close>

datatype jsval = JStr string | JBool bool

type_synonym settings_table = "string \<rightharpoonup> jsval"

type_synonym settings_map = "nat \<rightharpoonup> settings_table"

type_synonym event = "string \<times> dom_window option \<times> string"

text \<open>
  The mutable state: the rule lists, the \<^verbatim>\<open>settingsMap\<close>, the log of
  \<^verbatim>\<open>update-settings\<close> events emitted so far (message, window, origin), the hosts
  passed to \<^verbatim>\<open>cookieUtils.clobberCookie\<close> so far, the staged edits
  \<^verbatim>\<open>changedSettings\<close> (an object, as an association list in insertion order),
  and the number of calls of \<^verbatim>\<open>utils.reloadCurrentTab\<close>.
\<close>

record state =
  storage :: storage
  settingsMap :: settings_map
  emitted :: "event list"
  clobbered :: "string list"
  changedSettings :: "(string \<times> string) list"
  reloads :: nat

datatype verdict = ACCEPT | REJECT

text \<open>\<^verbatim>\<open>Ci.nsIContentPolicy.TYPE_DOCUMENT\<close>, a constant of the platform.\<close>

definition TYPE_DOCUMENT :: nat where
  "TYPE_DOCUMENT = 6"

text \<open>\<^verbatim>\<open>Ci.nsIWebProgressListener.LOCATION_CHANGE_SAME_DOCUMENT\<close>, a constant of the platform.\<close>

definition LOCATION_CHANGE_SAME_DOCUMENT :: nat where
  "LOCATION_CHANGE_SAME_DOCUMENT = 1"

section \<open>utils.js\<close>

definition getWindowForContext :: "load_context \<Rightarrow> dom_window option" where
  "getWindowForContext aContext =
     (case aContext of
        DOMWindow w \<Rightarrow> Some w
      | DOMNode od dv \<Rightarrow> (case od of Some d \<Rightarrow> doc_defaultView d | None \<Rightarrow> dv)
      | OtherContext ok \<Rightarrow>
          \<comment> \<open>the channel that comes back is an object with no \<^verbatim>\<open>top\<close>\<close>
          (if ok then Some \<lparr>win_top = None\<rparr> else None))"

definition isThirdPartyURI :: "platform \<Rightarrow> string \<Rightarrow> string \<Rightarrow> bool outcome" where
  "isThirdPartyURI P uri docUri =
     (case abp_makeURI P uri of
        Throws e \<Rightarrow> Throws e
      | Returns u \<Rightarrow>
          (case abp_makeURI P docUri of
             Throws e \<Rightarrow> Throws e
           | Returns d \<Rightarrow> tpu_isThirdPartyURI P u d))"

definition getBaseDomain :: "platform \<Rightarrow> nsIURI \<Rightarrow> string outcome" where
  "getBaseDomain P uri = tpu_getBaseDomain P uri"

definition isThirdPartyChannel :: "platform \<Rightarrow> nsIChannel \<Rightarrow> bool" where
  "isThirdPartyChannel P channel =
     (case tpu_isThirdPartyChannel P channel of Returns b \<Rightarrow> b | Throws e \<Rightarrow> False)"

section \<open>ui.js: the settings ledger\<close>

text \<open>
  \<^verbatim>\<open>obj[k] = v\<close> on a table, for a value that is not an object: the key becomes an
  own key, except \<^verbatim>\<open>__proto__\<close>, for which the assignment stores nothing.
\<close>

definition js_store :: "settings_table \<Rightarrow> string \<Rightarrow> jsval \<Rightarrow> settings_table" where
  "js_store obj k v = (if k = ''__proto__'' then obj else obj(k \<mapsto> v))"

text \<open>
  \<^verbatim>\<open>settingsMap.get(aWin, {})\<close> is the table of the window, or a fresh empty object.
  When \<^verbatim>\<open>aWin.top\<close> is missing the \<^verbatim>\<open>WeakMap\<close> refuses the key; the
  listener runs inside \<^verbatim>\<open>emit\<close> of \<^verbatim>\<open>sdk/event/core\<close>, which catches what a
  listener throws, so the map is left as it was.
\<close>

definition updateSettingsListener ::
    "string \<Rightarrow> dom_window option \<Rightarrow> string \<Rightarrow> settings_map \<Rightarrow> settings_map" where
  "updateSettingsListener msg aWin aOrigin m =
     (case aWin of
        None \<Rightarrow> m
      | Some w \<Rightarrow>
          if aOrigin = [] then m
          else (case win_top w of
                  None \<Rightarrow> m
                | Some t \<Rightarrow>
                    (let setting = (case m (key t) of None \<Rightarrow> Map.empty | Some tb \<Rightarrow> tb)
                     in m(key t \<mapsto> js_store setting aOrigin (JStr msg)))))"

definition clearSettingsListener :: "nat \<Rightarrow> settings_map \<Rightarrow> settings_map" where
  "clearSettingsListener aWin m = m(aWin := None)"

text \<open>The marker \<^verbatim>\<open>{cleared: true}\<close>.\<close>

definition cleared_sentinel :: settings_table where
  "cleared_sentinel = [''cleared'' \<mapsto> JBool True]"

text \<open>
  \<^verbatim>\<open>clearSettings\<close> empties the map and then calls \<^verbatim>\<open>utils.getAllWindows\<close>, which
  \<^verbatim>\<open>utils.js\<close> neither defines nor exports: the call of \<^verbatim>\<open>undefined\<close> throws, and
  the loop that would store the marker is never reached.
\<close>

definition clearSettings :: "settings_map \<Rightarrow> unit outcome \<times> settings_map" where
  "clearSettings m = (Throws TypeError, Map.empty)"

definition getCurrentSettings :: "nat \<Rightarrow> settings_map \<Rightarrow> settings_table" where
  "getCurrentSettings topContentWindow m =
     (case m topContentWindow of None \<Rightarrow> Map.empty | Some tb \<Rightarrow> tb)"

definition onLocationChange :: "nat \<Rightarrow> nat \<Rightarrow> settings_map \<Rightarrow> settings_map" where
  "onLocationChange aFlags win m =
     (if aFlags = 0 \<or> aFlags \<noteq> LOCATION_CHANGE_SAME_DOCUMENT
      then clearSettingsListener win m else m)"

text \<open>
  \<^verbatim>\<open>emit(settingsMap, "update-settings", msg, window, host)\<close>: the event is logged and
  the one registered listener runs.
\<close>

definition emit_update_settings :: "string \<Rightarrow> dom_window option \<Rightarrow> string \<Rightarrow> state \<Rightarrow> state" where
  "emit_update_settings msg window origin s =
     s\<lparr>settingsMap := updateSettingsListener msg window origin (settingsMap s),
       emitted := emitted s @ [(msg, window, origin)]\<rparr>"

text \<open>
  Modelled from the spec: \<^verbatim>\<open>cookieUtils.clobberCookie\<close> (\<^verbatim>\<open>lib/cookieUtils.js\<close> is
  not among the sources) is the collaborator \<^verbatim>\<open>CredentialStripper.clobber(origin)\<close>;
  the model records the call.
\<close>

definition clobberCookie :: "string \<Rightarrow> state \<Rightarrow> state" where
  "clobberCookie h s = s\<lparr>clobbered := clobbered s @ [h]\<rparr>"

section \<open>contentPolicy.js\<close>

definition whitelistSchemes :: "string list" where
  "whitelistSchemes =
     [''about'', ''chrome'', ''file'', ''irc'', ''moz-safe-about'', ''news'', ''resource'',
      ''snews'', ''x-jsd'', ''addbook'', ''cid'', ''imap'', ''mailbox'', ''nntp'', ''pop'',
      ''data'', ''javascript'', ''moz-icon'']"

definition hasWhitelistedScheme :: "nsIURI \<Rightarrow> bool" where
  "hasWhitelistedScheme loc = (scheme loc \<in> set whitelistSchemes)"

definition isBlockableRequest ::
    "platform \<Rightarrow> nsIURI \<Rightarrow> dom_window option \<Rightarrow> nsIChannel option \<Rightarrow> nat \<Rightarrow> bool outcome" where
  "isBlockableRequest P loc window channel contentType =
     (if hasWhitelistedScheme loc then Returns False
      else case channel of
        Some c \<Rightarrow> Returns (isThirdPartyChannel P c)
      | None \<Rightarrow>
          if contentType = TYPE_DOCUMENT then Returns False
          else (case window of
                  None \<Rightarrow> Throws TypeError
                | Some w \<Rightarrow>
                    (case win_top w of
                       None \<Rightarrow> Returns False
                     | Some topWin \<Rightarrow>
                         (case location topWin of
                            None \<Rightarrow> Returns False
                          | Some l \<Rightarrow>
                              if href l = [] then Returns False
                              else (case isThirdPartyURI P (spec loc) (href l) of
                                      Returns b \<Rightarrow> Returns b
                                    | Throws e \<Rightarrow> Returns True)))))"

definition isUserRedRequest ::
    "platform \<Rightarrow> nsIURI \<Rightarrow> dom_window option \<Rightarrow> state \<Rightarrow> bool \<times> state" where
  "isUserRedRequest P loc window s =
     (if js_in P (host loc) (userRed (storage s))
      then (True, (case window of
                     Some w \<Rightarrow> emit_update_settings ''userblock'' window (host loc) s
                   | None \<Rightarrow> s))
      else (False, s))"

definition isUserGreenRequest ::
    "platform \<Rightarrow> nsIURI \<Rightarrow> dom_window option \<Rightarrow> state \<Rightarrow> bool \<times> state" where
  "isUserGreenRequest P loc window s =
     (if js_in P (host loc) (userGreen (storage s))
      then (True, (case window of
                     Some w \<Rightarrow> emit_update_settings ''usernoaction'' window (host loc) s
                   | None \<Rightarrow> s))
      else (False, s))"

definition isUserYellowRequest ::
    "platform \<Rightarrow> nsIURI \<Rightarrow> dom_window option \<Rightarrow> state \<Rightarrow> bool outcome \<times> state" where
  "isUserYellowRequest P loc window s =
     (case getBaseDomain P loc of
        Throws e \<Rightarrow> (Throws e, s)
      | Returns origin \<Rightarrow>
          if js_in P (host loc) (userYellow (storage s))
          then (Returns True,
                (case window of
                   Some w \<Rightarrow> emit_update_settings ''usercookieblock'' window (host loc) s
                 | None \<Rightarrow> s))
          else if js_in P origin (userYellow (storage s))
          then (Returns True,
                clobberCookie (host loc)
                  (case window of
                     Some w \<Rightarrow> emit_update_settings ''usercookieblock'' window (host loc) s
                   | None \<Rightarrow> s))
          else (Returns False, s))"

text \<open>The result is the name of the rule that matched, or \<^verbatim>\<open>undefined\<close>.\<close>

definition shouldIgnoreRequest ::
    "platform \<Rightarrow> nsIURI \<Rightarrow> dom_window option \<Rightarrow> state \<Rightarrow> string option outcome \<times> state" where
  "shouldIgnoreRequest P loc window s =
     (case isUserGreenRequest P loc window s of
        (g, s1) \<Rightarrow>
          if g then (Returns (Some ''userGreen''), s1)
          else (case isUserYellowRequest P loc window s1 of
                  (y, s2) \<Rightarrow>
                    (case y of
                       Throws e \<Rightarrow> (Throws e, s2)
                     | Returns b \<Rightarrow>
                         if b then (Returns (Some ''userYellow''), s2)
                         else if js_in P (host loc) (preloads (storage s2))
                         then (Returns (Some ''preloads''), s2)
                         else (Returns None, s2))))"

definition heuristicBlocksRequest ::
    "platform \<Rightarrow> nsIURI \<Rightarrow> dom_window option \<Rightarrow> state \<Rightarrow> bool outcome \<times> state" where
  "heuristicBlocksRequest P loc window s =
     (case getBaseDomain P loc of
        Throws e \<Rightarrow> (Throws e, s)
      | Returns origin \<Rightarrow>
          if js_in P origin (blockedOrigins (storage s))
          then (Returns True, emit_update_settings ''block'' window (host loc) s)
          else (Returns False, s))"

definition heuristicCookieblocksRequest ::
    "platform \<Rightarrow> nsIURI \<Rightarrow> dom_window option \<Rightarrow> state \<Rightarrow> bool outcome \<times> state" where
  "heuristicCookieblocksRequest P loc window s =
     (case getBaseDomain P loc of
        Throws e \<Rightarrow> (Throws e, s)
      | Returns origin \<Rightarrow>
          if js_in P (host loc) (preloads (storage s)) \<or> js_in P origin (preloads (storage s))
          then (if js_in P origin (blockedOrigins (storage s))
                then (Returns True,
                      clobberCookie (host loc)
                        (emit_update_settings ''cookieblock'' window (host loc) s))
                else (Returns False, emit_update_settings ''noaction'' window (host loc) s))
          else (Returns False, s))"

definition subdomainCookieblocksRequest ::
    "platform \<Rightarrow> nsIURI \<Rightarrow> dom_window option \<Rightarrow> state \<Rightarrow> bool outcome \<times> state" where
  "subdomainCookieblocksRequest P loc window s =
     (case getBaseDomain P loc of
        Throws e \<Rightarrow> (Throws e, s)
      | Returns origin \<Rightarrow>
          if js_in P origin (userRed (storage s)) \<or> js_in P origin (blockedOrigins (storage s))
          then (Returns True,
                clobberCookie (host loc)
                  (emit_update_settings ''cookieblock'' window (host loc) s))
          else (Returns False, s))"

definition shouldBlockRequest ::
    "platform \<Rightarrow> nsIURI \<Rightarrow> dom_window option \<Rightarrow> state \<Rightarrow> bool outcome \<times> state" where
  "shouldBlockRequest P loc window s =
     (case isUserRedRequest P loc window s of
        (r, s1) \<Rightarrow> if r then (Returns True, s1) else heuristicBlocksRequest P loc window s1)"

definition shouldCookieblockRequest ::
    "platform \<Rightarrow> nsIURI \<Rightarrow> dom_window option \<Rightarrow> state \<Rightarrow> bool outcome \<times> state" where
  "shouldCookieblockRequest P loc window s =
     (case isUserYellowRequest P loc window s of
        (y, s1) \<Rightarrow>
          (case y of
             Throws e \<Rightarrow> (Throws e, s1)
           | Returns b \<Rightarrow>
               if b then (Returns True, s1)
               else (case heuristicCookieblocksRequest P loc window s1 of
                       (h, s2) \<Rightarrow>
                         (case h of
                            Throws e \<Rightarrow> (Throws e, s2)
                          | Returns c \<Rightarrow>
                              if c then (Returns True, s2)
                              else subdomainCookieblocksRequest P loc window s2))))"

text \<open>\<^verbatim>\<open>node ? utils.getWindowForContext(node) : null\<close>, the first line of \<^verbatim>\<open>shouldLoad\<close>.\<close>

definition windowOfNode :: "load_context option \<Rightarrow> dom_window option" where
  "windowOfNode node = (case node of Some n \<Rightarrow> getWindowForContext n | None \<Rightarrow> None)"

definition shouldLoad ::
    "platform \<Rightarrow> nat \<Rightarrow> nsIURI \<Rightarrow> load_context option \<Rightarrow> state \<Rightarrow> verdict outcome \<times> state" where
  "shouldLoad P contentType contentLocation node s =
     (let window = windowOfNode node
      in case isBlockableRequest P contentLocation window None contentType of
           Throws e \<Rightarrow> (Throws e, s)
         | Returns blockable \<Rightarrow>
             if \<not> blockable then (Returns ACCEPT, s)
             else (case isUserRedRequest P contentLocation window s of
                     (r, s1) \<Rightarrow>
                       if r then (Returns REJECT, s1)
                       else (case shouldIgnoreRequest P contentLocation window s1 of
                               (i, s2) \<Rightarrow>
                                 (case i of
                                    Throws e \<Rightarrow> (Throws e, s2)
                                  | Returns (Some filter_name) \<Rightarrow> (Returns ACCEPT, s2)
                                  | Returns None \<Rightarrow>
                                      (case heuristicBlocksRequest P contentLocation window s2 of
                                         (h, s3) \<Rightarrow>
                                           (case h of
                                              Throws e \<Rightarrow> (Throws e, s3)
                                            | Returns b \<Rightarrow>
                                                if b then (Returns REJECT, s3)
                                                else (Returns ACCEPT, s3)))))))"

section \<open>ui.js: staged edits and their commit\<close>

text \<open>
  Setting an own property of an object kept in insertion order: an existing key keeps its
  place, a new key goes last.
\<close>

fun setOwn :: "(string \<times> 'v) list \<Rightarrow> string \<Rightarrow> 'v \<Rightarrow> (string \<times> 'v) list" where
  "setOwn [] k v = [(k, v)]"
| "setOwn ((k', v') # kvs) k v =
     (if k' = k then (k, v) # kvs else (k', v') # setOwn kvs k v)"

text \<open>
  \<^verbatim>\<open>obj[k] = v\<close> for a string \<^verbatim>\<open>v\<close>: an own property is set, except for the key
  \<^verbatim>\<open>__proto__\<close>, for which the assignment stores nothing.
\<close>

definition assign :: "(string \<times> 'v) list \<Rightarrow> string \<Rightarrow> 'v \<Rightarrow> (string \<times> 'v) list" where
  "assign obj k v = (if k = ''__proto__'' then obj else setOwn obj k v)"

record update_data =
  origin :: string
  action :: string



text \<open>
  Modelled from the spec: \<^verbatim>\<open>lib/userStorage.js\<close> is not among the sources. The spec's
  commit step says what its four operations do: \<^verbatim>\<open>reset\<close> removes the origin from all
  user sets, \<^verbatim>\<open>block\<close> adds it to \<^verbatim>\<open>userRed\<close>, \<^verbatim>\<open>cookieblock\<close> adds it to
  \<^verbatim>\<open>userYellow\<close>, \<^verbatim>\<open>noaction\<close> adds it to \<^verbatim>\<open>userGreen\<close>.
\<close>

definition clearOrigin :: "string \<Rightarrow> storage \<Rightarrow> storage" where
  "clearOrigin orig st =
     st\<lparr>userRed := userRed st - {orig},
        userYellow := userYellow st - {orig},
        userGreen := userGreen st - {orig}\<rparr>"

definition addRed :: "string \<Rightarrow> storage \<Rightarrow> storage" where
  "addRed orig st = st\<lparr>userRed := insert orig (userRed st)\<rparr>"

definition addYellow :: "string \<Rightarrow> storage \<Rightarrow> storage" where
  "addYellow orig st = st\<lparr>userYellow := insert orig (userYellow st)\<rparr>"

definition addGreen :: "string \<Rightarrow> storage \<Rightarrow> storage" where
  "addGreen orig st = st\<lparr>userGreen := insert orig (userGreen st)\<rparr>"

text \<open>The \<^verbatim>\<open>switch\<close> of \<^verbatim>\<open>handleNewSettings\<close>; it has no \<^verbatim>\<open>default\<close> branch.\<close>

definition applySetting :: "string \<times> string \<Rightarrow> storage \<Rightarrow> storage" where
  "applySetting entry st =
     (case entry of
        (orig, act) \<Rightarrow>
          if act = ''reset'' then clearOrigin orig st
          else if act = ''block'' then addRed orig st
          else if act = ''cookieblock'' then addYellow orig st
          else if act = ''noaction'' then addGreen orig st
          else st)"

definition handleNewSettings :: "(string \<times> string) list \<Rightarrow> state \<Rightarrow> bool \<times> state" where
  "handleNewSettings settings s =
     (if settings = [] then (False, s)
      else (True, s\<lparr>storage := fold applySetting settings (storage s),
                     reloads := Suc (reloads s)\<rparr>))"


text \<open>
  The commit step in the words of the specification, for comparison with
  \<^verbatim>\<open>handleNewSettings\<close>: for each staged pair in turn, \<^verbatim>\<open>reset\<close> removes the
  origin from all three user sets, \<^verbatim>\<open>block\<close> adds it to \<^verbatim>\<open>userRed\<close>,
  \<^verbatim>\<open>cookieblock\<close> adds it to \<^verbatim>\<open>userYellow\<close>, \<^verbatim>\<open>noaction\<close> adds it to
  \<^verbatim>\<open>userGreen\<close>; a pair with any other tag is skipped.
\<close>

fun spec_commit :: "(string \<times> string) list \<Rightarrow> storage \<Rightarrow> storage" where
  "spec_commit [] st = st"
| "spec_commit ((orig, tag) # rest) st =
     spec_commit rest
       (if tag = ''reset''
        then st\<lparr>userRed := userRed st - {orig}, userYellow := userYellow st - {orig},
                userGreen := userGreen st - {orig}\<rparr>
        else if tag = ''block'' then st\<lparr>userRed := insert orig (userRed st)\<rparr>
        else if tag = ''cookieblock'' then st\<lparr>userYellow := insert orig (userYellow st)\<rparr>
        else if tag = ''noaction'' then st\<lparr>userGreen := insert orig (userGreen st)\<rparr>
        else st)"

section \<open>Observations\<close>

text \<open>The events emitted between two states: what the log gained.\<close>

definition eventsSince :: "state \<Rightarrow> state \<Rightarrow> event list" where
  "eventsSince s s' = drop (length (emitted s)) (emitted s')"

text \<open>The cookies clobbered between two states.\<close>

definition clobberedSince :: "state \<Rightarrow> state \<Rightarrow> string list" where
  "clobberedSince s s' = drop (length (clobbered s)) (clobbered s')"

text \<open>
  The second guard of \<^verbatim>\<open>isBlockableRequest\<close>:
  \<^verbatim>\<open>!topWin || !topWin.location || !topWin.location.href\<close>.
\<close>

definition noTopLocation :: "dom_window \<Rightarrow> bool" where
  "noTopLocation w =
     (case win_top w of
        None \<Rightarrow> True
      | Some t \<Rightarrow> (case location t of None \<Rightarrow> True | Some l \<Rightarrow> href l = []))"


text \<open>What the ledger shows for an origin in the table of a top window.\<close>

definition ledgerEntry :: "state \<Rightarrow> nat \<Rightarrow> string \<Rightarrow> jsval option" where
  "ledgerEntry s k orig = (case settingsMap s k of None \<Rightarrow> None | Some tb \<Rightarrow> tb orig)"

section \<open>A concrete platform and concrete requests\<close>

text \<open>
  A small platform for evaluating the model. Four URLs parse, the empty string makes
  \<^verbatim>\<open>makeURI\<close> throw and every other string makes it return \<^verbatim>\<open>null\<close>. The base
  domain of \<^verbatim>\<open>cdn.tracker.com\<close> is \<^verbatim>\<open>tracker.com\<close>, any other host is its own
  base domain, and a URI without a host, such as \<^verbatim>\<open>about:blank\<close>, has none: the lookup
  throws. The third-party comparison compares base domains and throws when an argument is
  \<^verbatim>\<open>null\<close> or has no base domain.
\<close>

definition tracker_uri :: nsIURI where
  "tracker_uri = \<lparr>scheme = ''https'', host = ''cdn.tracker.com'', spec = ''https://cdn.tracker.com/x.js''\<rparr>"

definition site_uri :: nsIURI where
  "site_uri = \<lparr>scheme = ''https'', host = ''site.com'', spec = ''https://site.com/''\<rparr>"

definition blank_uri :: nsIURI where
  "blank_uri = \<lparr>scheme = ''about'', host = [], spec = ''about:blank''\<rparr>"

definition constructor_uri :: nsIURI where
  "constructor_uri = \<lparr>scheme = ''http'', host = ''constructor'', spec = ''http://constructor/x.js''\<rparr>"

definition demo_baseDomain :: "nsIURI \<Rightarrow> string outcome" where
  "demo_baseDomain u =
     (if host u = [] then Throws ExternalError
      else if host u = ''cdn.tracker.com'' then Returns ''tracker.com''
      else Returns (host u))"

definition demo_makeURI :: "string \<Rightarrow> nsIURI option outcome" where
  "demo_makeURI url =
     (if url = [] then Throws ExternalError
      else if url = spec tracker_uri then Returns (Some tracker_uri)
      else if url = spec site_uri then Returns (Some site_uri)
      else if url = spec blank_uri then Returns (Some blank_uri)
      else if url = spec constructor_uri then Returns (Some constructor_uri)
      else Returns None)"

definition demo_isThirdPartyURI :: "nsIURI option \<Rightarrow> nsIURI option \<Rightarrow> bool outcome" where
  "demo_isThirdPartyURI a b =
     (case a of
        None \<Rightarrow> Throws ExternalError
      | Some x \<Rightarrow>
          (case b of
             None \<Rightarrow> Throws ExternalError
           | Some y \<Rightarrow>
               (case demo_baseDomain x of
                  Throws e \<Rightarrow> Throws e
                | Returns p \<Rightarrow>
                    (case demo_baseDomain y of
                       Throws e \<Rightarrow> Throws e
                     | Returns q \<Rightarrow> Returns (p \<noteq> q)))))"

text \<open>The property names of \<^verbatim>\<open>Object.prototype\<close> in the engine the add-on runs on.\<close>

definition demo_prototype_keys :: "string set" where
  "demo_prototype_keys =
     {''constructor'', ''toString'', ''toLocaleString'', ''valueOf'', ''hasOwnProperty'',
      ''isPrototypeOf'', ''propertyIsEnumerable'', ''__proto__'', ''__defineGetter__'',
      ''__defineSetter__'', ''__lookupGetter__'', ''__lookupSetter__'', ''toSource'',
      ''watch'', ''unwatch''}"

definition demo_platform :: platform where
  "demo_platform =
     \<lparr>abp_makeURI = demo_makeURI,
      tpu_isThirdPartyURI = demo_isThirdPartyURI,
      tpu_isThirdPartyChannel = (\<lambda>c. Throws ExternalError),
      tpu_getBaseDomain = demo_baseDomain,
      object_prototype_keys = demo_prototype_keys\<rparr>"

text \<open>A window whose top window has identity 7 and shows \<^verbatim>\<open>https://site.com/\<close>.\<close>

definition site_window :: dom_window where
  "site_window = \<lparr>win_top = Some \<lparr>key = 7, location = Some \<lparr>href = ''https://site.com/''\<rparr>\<rparr>\<rparr>"

text \<open>A window whose top window still shows \<^verbatim>\<open>about:blank\<close>.\<close>

definition blank_window :: dom_window where
  "blank_window = \<lparr>win_top = Some \<lparr>key = 8, location = Some \<lparr>href = ''about:blank''\<rparr>\<rparr>\<rparr>"

text \<open>A window that has no top window.\<close>

definition detached_window :: dom_window where
  "detached_window = \<lparr>win_top = None\<rparr>"

definition empty_storage :: storage where
  "empty_storage =
     \<lparr>preloads = {}, blockedOrigins = {}, userRed = {}, userYellow = {}, userGreen = {}\<rparr>"

definition state_of :: "storage \<Rightarrow> state" where
  "state_of st =
     \<lparr>storage = st, settingsMap = Map.empty, emitted = [], clobbered = [],
      changedSettings = [], reloads = 0\<rparr>"

definition preload_blocked_storage :: storage where
  "preload_blocked_storage =
     \<lparr>preloads = {''cdn.tracker.com''}, blockedOrigins = {''tracker.com''},
      userRed = {}, userYellow = {}, userGreen = {}\<rparr>"

definition blocked_storage :: storage where
  "blocked_storage =
     \<lparr>preloads = {}, blockedOrigins = {''tracker.com''},
      userRed = {}, userYellow = {}, userGreen = {}\<rparr>"

definition red_storage :: storage where
  "red_storage =
     \<lparr>preloads = {}, blockedOrigins = {},
      userRed = {''cdn.tracker.com''}, userYellow = {}, userGreen = {}\<rparr>"

text \<open>
  The host \<^verbatim>\<open>constructor\<close> is an own key of \<^verbatim>\<open>preloads\<close> and of
  \<^verbatim>\<open>blockedOrigins\<close>, and of no user list.
\<close>

definition constructor_storage :: storage where
  "constructor_storage =
     \<lparr>preloads = {''constructor''}, blockedOrigins = {''constructor''},
      userRed = {}, userYellow = {}, userGreen = {}\<rparr>"

text \<open>A content type that is not \<^verbatim>\<open>TYPE_DOCUMENT\<close>: \<^verbatim>\<open>TYPE_SCRIPT\<close>.\<close>

definition TYPE_SCRIPT :: nat where
  "TYPE_SCRIPT = 2"

section \<open>Evaluation facts\<close>

lemmas policy_defs =
  shouldLoad_def windowOfNode_def getWindowForContext_def isBlockableRequest_def
  hasWhitelistedScheme_def whitelistSchemes_def isThirdPartyURI_def isThirdPartyChannel_def
  getBaseDomain_def isUserRedRequest_def isUserGreenRequest_def isUserYellowRequest_def
  shouldIgnoreRequest_def heuristicBlocksRequest_def heuristicCookieblocksRequest_def
  subdomainCookieblocksRequest_def shouldBlockRequest_def shouldCookieblockRequest_def
  emit_update_settings_def updateSettingsListener_def js_store_def clobberCookie_def
  eventsSince_def clobberedSince_def ledgerEntry_def TYPE_DOCUMENT_def js_in_def Let_def

lemmas chain_defs =
  isUserRedRequest_def isUserGreenRequest_def isUserYellowRequest_def
  shouldIgnoreRequest_def heuristicBlocksRequest_def heuristicCookieblocksRequest_def
  subdomainCookieblocksRequest_def shouldBlockRequest_def shouldCookieblockRequest_def
  getBaseDomain_def emit_update_settings_def clobberCookie_def eventsSince_def
  clobberedSince_def

lemmas demo_defs =
  tracker_uri_def site_uri_def blank_uri_def constructor_uri_def demo_baseDomain_def
  demo_makeURI_def demo_isThirdPartyURI_def demo_prototype_keys_def demo_platform_def
  site_window_def blank_window_def detached_window_def empty_storage_def state_of_def
  preload_blocked_storage_def blocked_storage_def red_storage_def constructor_storage_def
  TYPE_SCRIPT_def

lemma js_in_own: "k \<in> obj \<Longrightarrow> js_in P k obj"
  by (simp add: js_in_def)

section \<open>Which requests are blockable\<close>

lemma blockable_needs_window:
  "isBlockableRequest P loc window None ct = Returns True \<Longrightarrow>
   \<exists>w t l. window = Some w \<and> win_top w = Some t \<and> location t = Some l \<and> href l \<noteq> []"
  by (auto simp: isBlockableRequest_def split: if_splits option.splits outcome.splits)


section \<open>User block wins\<close>

text \<open>
  C1. A request that \<^verbatim>\<open>isBlockableRequest\<close> lets through (scheme not whitelisted,
  not a document load, third party) and whose host is in \<^verbatim>\<open>userRed\<close> is rejected, and
  the call emits exactly one event, \<^verbatim>\<open>userblock\<close> for that host, whatever the other
  four lists hold: the rule lists are arbitrary but for the host being in \<^verbatim>\<open>userRed\<close>.
\<close>

theorem C1_userRed_blocks:
  assumes blockable: "isBlockableRequest P loc (windowOfNode node) None contentType = Returns True"
      and red: "host loc \<in> userRed (storage s)"
  shows "fst (shouldLoad P contentType loc node s) = Returns REJECT \<and>
         windowOfNode node \<noteq> None \<and>
         eventsSince s (snd (shouldLoad P contentType loc node s)) =
           [(''userblock'', windowOfNode node, host loc)]"
proof -
  from blockable_needs_window[OF blockable] obtain w where w: "windowOfNode node = Some w"
    by blast
  show ?thesis
    using blockable red w
    by (simp add: shouldLoad_def isUserRedRequest_def emit_update_settings_def
        eventsSince_def js_in_own Let_def)
qed

text \<open>The host is in all five lists at once; the request is still rejected as \<^verbatim>\<open>userblock\<close>.\<close>

theorem C1_userRed_blocks_witness:
  "isBlockableRequest demo_platform tracker_uri
     (windowOfNode (Some (DOMWindow site_window))) None TYPE_SCRIPT = Returns True \<and>
   fst (shouldLoad demo_platform TYPE_SCRIPT tracker_uri (Some (DOMWindow site_window))
         (state_of \<lparr>preloads = {''cdn.tracker.com''}, blockedOrigins = {''tracker.com''},
            userRed = {''cdn.tracker.com''}, userYellow = {''cdn.tracker.com''},
            userGreen = {''cdn.tracker.com''}\<rparr>)) = Returns REJECT \<and>
   eventsSince
     (state_of \<lparr>preloads = {''cdn.tracker.com''}, blockedOrigins = {''tracker.com''},
        userRed = {''cdn.tracker.com''}, userYellow = {''cdn.tracker.com''},
        userGreen = {''cdn.tracker.com''}\<rparr>)
     (snd (shouldLoad demo_platform TYPE_SCRIPT tracker_uri (Some (DOMWindow site_window))
         (state_of \<lparr>preloads = {''cdn.tracker.com''}, blockedOrigins = {''tracker.com''},
            userRed = {''cdn.tracker.com''}, userYellow = {''cdn.tracker.com''},
            userGreen = {''cdn.tracker.com''}\<rparr>))) =
     [(''userblock'', Some site_window, ''cdn.tracker.com'')]"
proof -
  have blockable: "isBlockableRequest demo_platform tracker_uri
     (windowOfNode (Some (DOMWindow site_window))) None TYPE_SCRIPT = Returns True"
    by (simp add: policy_defs demo_defs)
  have red: "host tracker_uri \<in> userRed (storage
     (state_of \<lparr>preloads = {''cdn.tracker.com''}, blockedOrigins = {''tracker.com''},
        userRed = {''cdn.tracker.com''}, userYellow = {''cdn.tracker.com''},
        userGreen = {''cdn.tracker.com''}\<rparr>))"
    by (simp add: demo_defs)
  have w: "windowOfNode (Some (DOMWindow site_window)) = Some site_window"
    by (simp add: windowOfNode_def getWindowForContext_def)
  have h: "host tracker_uri = ''cdn.tracker.com''"
    by (simp add: tracker_uri_def)
  show ?thesis
    using C1_userRed_blocks [OF blockable red] blockable w h by simp
qed

section \<open>Preloaded hosts that the heuristic has blocked\<close>




section \<open>Heuristic block\<close>

text \<open>
  C3, as amended. Membership is what the code tests with \<^verbatim>\<open>in\<close>. Let the request be
  blockable, the base domain of its host be in \<^verbatim>\<open>blockedOrigins\<close> and not in
  \<^verbatim>\<open>userYellow\<close>, and the host be in no user list and not in \<^verbatim>\<open>preloads\<close>; let
  the host be a key a table can hold: not empty and not \<^verbatim>\<open>__proto__\<close>. Then
  \<^verbatim>\<open>shouldLoad\<close> rejects the request, emits exactly the event \<^verbatim>\<open>block\<close> for the
  host, and afterwards the table of the window's top window maps the host to \<^verbatim>\<open>block\<close>.
\<close>

theorem C3_heuristic_block:
  assumes blockable: "isBlockableRequest P loc (windowOfNode node) None ct = Returns True"
      and bd: "getBaseDomain P loc = Returns d"
      and blk: "js_in P d (blockedOrigins (storage s))"
      and nr: "\<not> js_in P (host loc) (userRed (storage s))"
      and ny: "\<not> js_in P (host loc) (userYellow (storage s))"
      and ng: "\<not> js_in P (host loc) (userGreen (storage s))"
      and nyb: "\<not> js_in P d (userYellow (storage s))"
      and np: "\<not> js_in P (host loc) (preloads (storage s))"
      and ne: "host loc \<noteq> []"
      and npr: "host loc \<noteq> ''__proto__''"
  shows "fst (shouldLoad P ct loc node s) = Returns REJECT \<and>
         eventsSince s (snd (shouldLoad P ct loc node s)) = [(''block'', windowOfNode node, host loc)] \<and>
         (\<exists>w t. windowOfNode node = Some w \<and> win_top w = Some t \<and>
            ledgerEntry (snd (shouldLoad P ct loc node s)) (key t) (host loc) = Some (JStr ''block''))"
proof -
  from blockable_needs_window[OF blockable] obtain w t
    where w: "windowOfNode node = Some w" "win_top w = Some t"
    by blast
  show ?thesis
    using assms w unfolding shouldLoad_def Let_def
    by (simp add: chain_defs ledgerEntry_def updateSettingsListener_def js_store_def)
qed

text \<open>
  The scenario of the specification: \<^verbatim>\<open>blockedOrigins = {tracker.com}\<close>, a request to
  \<^verbatim>\<open>https://cdn.tracker.com/x.js\<close> on the top document \<^verbatim>\<open>https://site.com/\<close>.
\<close>

theorem C3_heuristic_block_witness:
  "isBlockableRequest demo_platform tracker_uri (windowOfNode (Some (DOMWindow site_window)))
      None TYPE_SCRIPT = Returns True \<and>
   fst (shouldLoad demo_platform TYPE_SCRIPT tracker_uri (Some (DOMWindow site_window))
          (state_of blocked_storage)) = Returns REJECT \<and>
   eventsSince (state_of blocked_storage)
     (snd (shouldLoad demo_platform TYPE_SCRIPT tracker_uri (Some (DOMWindow site_window))
          (state_of blocked_storage))) = [(''block'', Some site_window, ''cdn.tracker.com'')] \<and>
   ledgerEntry
     (snd (shouldLoad demo_platform TYPE_SCRIPT tracker_uri (Some (DOMWindow site_window))
          (state_of blocked_storage))) 7 ''cdn.tracker.com'' = Some (JStr ''block'')"
proof -
  have blockable: "isBlockableRequest demo_platform tracker_uri
      (windowOfNode (Some (DOMWindow site_window))) None TYPE_SCRIPT = Returns True"
    by (simp add: policy_defs demo_defs)
  have bd: "getBaseDomain demo_platform tracker_uri = Returns ''tracker.com''"
    by (simp add: getBaseDomain_def demo_defs)
  have w: "windowOfNode (Some (DOMWindow site_window)) = Some site_window"
    by (simp add: windowOfNode_def getWindowForContext_def)
  have t: "win_top site_window = Some \<lparr>key = 7, location = Some \<lparr>href = ''https://site.com/''\<rparr>\<rparr>"
    by (simp add: site_window_def)
  have h: "host tracker_uri = ''cdn.tracker.com''"
    by (simp add: tracker_uri_def)
  have m: "js_in demo_platform ''tracker.com'' (blockedOrigins (storage (state_of blocked_storage))) \<and>
     \<not> js_in demo_platform ''cdn.tracker.com'' (userRed (storage (state_of blocked_storage))) \<and>
     \<not> js_in demo_platform ''cdn.tracker.com'' (userYellow (storage (state_of blocked_storage))) \<and>
     \<not> js_in demo_platform ''cdn.tracker.com'' (userGreen (storage (state_of blocked_storage))) \<and>
     \<not> js_in demo_platform ''tracker.com'' (userYellow (storage (state_of blocked_storage))) \<and>
     \<not> js_in demo_platform ''cdn.tracker.com'' (preloads (storage (state_of blocked_storage)))"
    by (simp add: js_in_def demo_defs)
  show ?thesis
    using C3_heuristic_block [OF blockable bd, of "state_of blocked_storage"] blockable m
    by (simp add: h w t)
qed

text \<open>
  C3 as stated fails twice. With the base domain in \<^verbatim>\<open>userYellow\<close> and the host in no
  user list the request is accepted as \<^verbatim>\<open>usercookieblock\<close>. With the host
  \<^verbatim>\<open>constructor\<close> and every user list empty the request is rejected, but as
  \<^verbatim>\<open>userblock\<close>, and that is what the table records.
\<close>

theorem C3_counterexample:
  "isBlockableRequest demo_platform tracker_uri (windowOfNode (Some (DOMWindow site_window)))
      None TYPE_SCRIPT = Returns True \<and>
   getBaseDomain demo_platform tracker_uri = Returns ''tracker.com'' \<and>
   ''tracker.com'' \<in> blockedOrigins (blocked_storage\<lparr>userYellow := {''tracker.com''}\<rparr>) \<and>
   host tracker_uri \<notin> userRed (blocked_storage\<lparr>userYellow := {''tracker.com''}\<rparr>) \<and>
   host tracker_uri \<notin> userYellow (blocked_storage\<lparr>userYellow := {''tracker.com''}\<rparr>) \<and>
   host tracker_uri \<notin> userGreen (blocked_storage\<lparr>userYellow := {''tracker.com''}\<rparr>) \<and>
   host tracker_uri \<notin> preloads (blocked_storage\<lparr>userYellow := {''tracker.com''}\<rparr>) \<and>
   fst (shouldLoad demo_platform TYPE_SCRIPT tracker_uri (Some (DOMWindow site_window))
          (state_of (blocked_storage\<lparr>userYellow := {''tracker.com''}\<rparr>))) = Returns ACCEPT \<and>
   eventsSince (state_of (blocked_storage\<lparr>userYellow := {''tracker.com''}\<rparr>))
     (snd (shouldLoad demo_platform TYPE_SCRIPT tracker_uri (Some (DOMWindow site_window))
          (state_of (blocked_storage\<lparr>userYellow := {''tracker.com''}\<rparr>)))) =
     [(''usercookieblock'', Some site_window, ''cdn.tracker.com'')] \<and>
   isBlockableRequest demo_platform constructor_uri (windowOfNode (Some (DOMWindow site_window)))
      None TYPE_SCRIPT = Returns True \<and>
   getBaseDomain demo_platform constructor_uri = Returns ''constructor'' \<and>
   ''constructor'' \<in> blockedOrigins (constructor_storage\<lparr>preloads := {}\<rparr>) \<and>
   host constructor_uri \<notin> userRed (constructor_storage\<lparr>preloads := {}\<rparr>) \<and>
   host constructor_uri \<notin> userYellow (constructor_storage\<lparr>preloads := {}\<rparr>) \<and>
   host constructor_uri \<notin> userGreen (constructor_storage\<lparr>preloads := {}\<rparr>) \<and>
   host constructor_uri \<notin> preloads (constructor_storage\<lparr>preloads := {}\<rparr>) \<and>
   eventsSince (state_of (constructor_storage\<lparr>preloads := {}\<rparr>))
     (snd (shouldLoad demo_platform TYPE_SCRIPT constructor_uri (Some (DOMWindow site_window))
          (state_of (constructor_storage\<lparr>preloads := {}\<rparr>)))) =
     [(''userblock'', Some site_window, ''constructor'')] \<and>
   ledgerEntry
     (snd (shouldLoad demo_platform TYPE_SCRIPT constructor_uri (Some (DOMWindow site_window))
          (state_of (constructor_storage\<lparr>preloads := {}\<rparr>)))) 7 ''constructor'' =
     Some (JStr ''userblock'')"
  by (simp add: policy_defs demo_defs)

section \<open>Requests that cannot be classified\<close>

text \<open>
  C4, as amended. A request whose window has no top window, no top location or an empty
  top \<^verbatim>\<open>href\<close> is accepted and nothing is emitted. When the third-party comparison
  throws, \<^verbatim>\<open>isBlockableRequest\<close> keeps its initial answer \<^verbatim>\<open>true\<close>: the request
  counts as third party and goes on to the rules. \<^verbatim>\<open>isThirdPartyURI\<close> has no handler
  of its own: what \<^verbatim>\<open>makeURI\<close> throws, on the request URL or on the document URL, it
  throws, and otherwise its answer is the answer of the platform's comparison on what
  \<^verbatim>\<open>makeURI\<close> returned. On the channel path, taken when a channel is given, a
  comparison that throws counts as first party and the request is not blockable.
\<close>

theorem C4_unclassifiable_requests:
  "(windowOfNode node = Some w \<and> noTopLocation w \<longrightarrow>
      shouldLoad P ct loc node s = (Returns ACCEPT, s)) \<and>
   (\<not> hasWhitelistedScheme loc \<and> ct \<noteq> TYPE_DOCUMENT \<and>
    win_top w = Some t \<and> location t = Some l \<and> href l \<noteq> [] \<and>
    isThirdPartyURI P (spec loc) (href l) = Throws e \<longrightarrow>
      isBlockableRequest P loc (Some w) None ct = Returns True) \<and>
   (abp_makeURI P uri = Throws e \<longrightarrow> isThirdPartyURI P uri docUri = Throws e) \<and>
   (abp_makeURI P uri = Returns u \<and> abp_makeURI P docUri = Throws e \<longrightarrow>
      isThirdPartyURI P uri docUri = Throws e) \<and>
   (abp_makeURI P uri = Returns u \<and> abp_makeURI P docUri = Returns v \<longrightarrow>
      isThirdPartyURI P uri docUri = tpu_isThirdPartyURI P u v) \<and>
   (tpu_isThirdPartyChannel P channel = Throws e \<longrightarrow> \<not> isThirdPartyChannel P channel \<and>
      isBlockableRequest P loc window (Some channel) ct = Returns False)"
proof -
  have a: "windowOfNode node = Some w \<and> noTopLocation w \<longrightarrow>
      shouldLoad P ct loc node s = (Returns ACCEPT, s)"
    by (auto simp: shouldLoad_def isBlockableRequest_def noTopLocation_def Let_def
        split: option.splits)
  have b: "\<not> hasWhitelistedScheme loc \<and> ct \<noteq> TYPE_DOCUMENT \<and>
    win_top w = Some t \<and> location t = Some l \<and> href l \<noteq> [] \<and>
    isThirdPartyURI P (spec loc) (href l) = Throws e \<longrightarrow>
      isBlockableRequest P loc (Some w) None ct = Returns True"
    by (simp add: isBlockableRequest_def)
  have c: "abp_makeURI P uri = Throws e \<longrightarrow> isThirdPartyURI P uri docUri = Throws e"
    by (simp add: isThirdPartyURI_def)
  have c': "abp_makeURI P uri = Returns u \<and> abp_makeURI P docUri = Throws e \<longrightarrow>
      isThirdPartyURI P uri docUri = Throws e"
    by (simp add: isThirdPartyURI_def)
  have d: "abp_makeURI P uri = Returns u \<and> abp_makeURI P docUri = Returns v \<longrightarrow>
      isThirdPartyURI P uri docUri = tpu_isThirdPartyURI P u v"
    by (simp add: isThirdPartyURI_def)
  have f: "tpu_isThirdPartyChannel P channel = Throws e \<longrightarrow> \<not> isThirdPartyChannel P channel \<and>
      isBlockableRequest P loc window (Some channel) ct = Returns False"
    by (simp add: isThirdPartyChannel_def isBlockableRequest_def)
  from a b c c' d f show ?thesis by blast
qed

text \<open>
  A window without a top window, with the host in \<^verbatim>\<open>userRed\<close>: accepted. A request
  from a window whose top window still shows \<^verbatim>\<open>about:blank\<close>, which has no base
  domain: the comparison throws and the request is blockable.
\<close>

theorem C4_unclassifiable_requests_witness:
  "shouldLoad demo_platform TYPE_SCRIPT tracker_uri (Some (DOMWindow detached_window))
     (state_of red_storage) = (Returns ACCEPT, state_of red_storage) \<and>
   isBlockableRequest demo_platform tracker_uri (Some blank_window) None TYPE_SCRIPT = Returns True \<and>
   isThirdPartyURI demo_platform [] (spec site_uri) = Throws ExternalError \<and>
   isThirdPartyURI demo_platform (spec tracker_uri) [] = Throws ExternalError \<and>
   isThirdPartyURI demo_platform ''https://cdn.tracker.com:x/'' (spec site_uri) =
     tpu_isThirdPartyURI demo_platform None (Some site_uri) \<and>
   isBlockableRequest demo_platform tracker_uri (Some site_window) (Some 0) TYPE_SCRIPT =
     Returns False"
proof -
  have w: "windowOfNode (Some (DOMWindow detached_window)) = Some detached_window"
    by (simp add: windowOfNode_def getWindowForContext_def)
  have n: "noTopLocation detached_window"
    by (simp add: noTopLocation_def detached_window_def)
  have g: "\<not> hasWhitelistedScheme tracker_uri \<and> TYPE_SCRIPT \<noteq> TYPE_DOCUMENT \<and>
     win_top blank_window = Some \<lparr>key = 8, location = Some \<lparr>href = ''about:blank''\<rparr>\<rparr> \<and>
     location \<lparr>key = 8, location = Some \<lparr>href = ''about:blank''\<rparr>\<rparr> =
       Some \<lparr>href = ''about:blank''\<rparr> \<and>
     href \<lparr>href = ''about:blank''\<rparr> \<noteq> [] \<and>
     isThirdPartyURI demo_platform (spec tracker_uri) (href \<lparr>href = ''about:blank''\<rparr>) =
       Throws ExternalError"
    by (simp add: hasWhitelistedScheme_def whitelistSchemes_def isThirdPartyURI_def
        TYPE_DOCUMENT_def demo_defs)
  have m: "abp_makeURI demo_platform ''https://cdn.tracker.com:x/'' = Returns None \<and>
           abp_makeURI demo_platform (spec site_uri) = Returns (Some site_uri)"
    by (simp add: demo_defs)
  have x: "abp_makeURI demo_platform [] = Throws ExternalError"
    by (simp add: demo_defs)
  have y: "abp_makeURI demo_platform (spec tracker_uri) = Returns (Some tracker_uri) \<and>
           abp_makeURI demo_platform [] = Throws ExternalError"
    by (simp add: demo_defs)
  have c: "tpu_isThirdPartyChannel demo_platform 0 = Throws ExternalError"
    by (simp add: demo_defs)
  from C4_unclassifiable_requests
    [where node = "Some (DOMWindow detached_window)" and w = detached_window
       and P = demo_platform and ct = TYPE_SCRIPT and loc = tracker_uri
       and s = "state_of red_storage"] w n
  have 1: "shouldLoad demo_platform TYPE_SCRIPT tracker_uri (Some (DOMWindow detached_window))
     (state_of red_storage) = (Returns ACCEPT, state_of red_storage)"
    by blast
  from C4_unclassifiable_requests
    [where w = blank_window and ct = TYPE_SCRIPT and loc = tracker_uri
       and t = "\<lparr>key = 8, location = Some \<lparr>href = ''about:blank''\<rparr>\<rparr>"
       and l = "\<lparr>href = ''about:blank''\<rparr>" and P = demo_platform
       and e = ExternalError] g
  have 2: "isBlockableRequest demo_platform tracker_uri (Some blank_window) None TYPE_SCRIPT =
     Returns True"
    by blast
  from C4_unclassifiable_requests
    [where P = demo_platform and uri = "[]" and docUri = "spec site_uri" and e = ExternalError] x
  have 3: "isThirdPartyURI demo_platform [] (spec site_uri) = Throws ExternalError"
    by blast
  from C4_unclassifiable_requests
    [where P = demo_platform and uri = "spec tracker_uri" and docUri = "[]"
       and e = ExternalError and u = "Some tracker_uri"] y
  have 4: "isThirdPartyURI demo_platform (spec tracker_uri) [] = Throws ExternalError"
    by blast
  from C4_unclassifiable_requests
    [where P = demo_platform and uri = "''https://cdn.tracker.com:x/''"
       and docUri = "spec site_uri" and u = None and v = "Some site_uri"] m
  have 5: "isThirdPartyURI demo_platform ''https://cdn.tracker.com:x/'' (spec site_uri) =
     tpu_isThirdPartyURI demo_platform None (Some site_uri)"
    by blast
  from C4_unclassifiable_requests
    [where P = demo_platform and channel = 0 and e = ExternalError and loc = tracker_uri
       and window = "Some site_window" and ct = TYPE_SCRIPT] c
  have 6: "isBlockableRequest demo_platform tracker_uri (Some site_window) (Some 0) TYPE_SCRIPT =
     Returns False"
    by blast
  from 1 2 3 4 5 6 show ?thesis by blast
qed

text \<open>
  C4 as stated fails: the top window shows \<^verbatim>\<open>about:blank\<close>, the comparison throws,
  and the request, whose host is in \<^verbatim>\<open>userRed\<close>, is rejected. And for a URL that does
  not parse \<^verbatim>\<open>isThirdPartyURI\<close> throws; it does not return false.
\<close>

theorem C4_counterexample:
  "isThirdPartyURI demo_platform (spec tracker_uri) ''about:blank'' = Throws ExternalError \<and>
   isBlockableRequest demo_platform tracker_uri (Some blank_window) None TYPE_SCRIPT =
     Returns True \<and>
   fst (shouldLoad demo_platform TYPE_SCRIPT tracker_uri (Some (DOMWindow blank_window))
          (state_of red_storage)) = Returns REJECT \<and>
   isThirdPartyURI demo_platform ''https://cdn.tracker.com:x/'' (spec site_uri) =
     Throws ExternalError"
  by (simp add: policy_defs demo_defs)

section \<open>Navigation and the ledger\<close>

text \<open>
  C5, as amended. After a location change whose flags are not
  \<^verbatim>\<open>LOCATION_CHANGE_SAME_DOCUMENT\<close>, and after \<^verbatim>\<open>clearSettingsListener\<close> in
  general, reading the table of that window gives the empty object, whatever was recorded
  before.
\<close>

theorem C5_navigation_empties_table:
  "(aFlags \<noteq> LOCATION_CHANGE_SAME_DOCUMENT \<longrightarrow>
      getCurrentSettings win (onLocationChange aFlags win m) = Map.empty) \<and>
   getCurrentSettings win (clearSettingsListener win m) = Map.empty"
  by (simp add: getCurrentSettings_def onLocationChange_def clearSettingsListener_def)

text \<open>The ledger after the blocked request of the scenario, then a navigation of window 7.\<close>

theorem C5_navigation_empties_table_witness:
  "ledgerEntry (snd (shouldLoad demo_platform TYPE_SCRIPT tracker_uri
        (Some (DOMWindow site_window)) (state_of blocked_storage))) 7 ''cdn.tracker.com'' =
     Some (JStr ''block'') \<and>
   getCurrentSettings 7
     (onLocationChange 0 7 (settingsMap (snd (shouldLoad demo_platform TYPE_SCRIPT tracker_uri
        (Some (DOMWindow site_window)) (state_of blocked_storage))))) = Map.empty"
proof -
  have a: "ledgerEntry (snd (shouldLoad demo_platform TYPE_SCRIPT tracker_uri
        (Some (DOMWindow site_window)) (state_of blocked_storage))) 7 ''cdn.tracker.com'' =
     Some (JStr ''block'')"
    by (simp add: policy_defs demo_defs)
  show ?thesis
    using C5_navigation_empties_table [where aFlags = 0 and win = 7] a
    by (simp add: LOCATION_CHANGE_SAME_DOCUMENT_def)
qed

text \<open>
  C5 as stated fails: a table with one decision, a navigation, and the read is not the
  marker: it has no key \<^verbatim>\<open>cleared\<close>.
\<close>

theorem C5_counterexample:
  "getCurrentSettings 7 [7 \<mapsto> [''cdn.tracker.com'' \<mapsto> JStr ''block'']] ''cdn.tracker.com'' =
     Some (JStr ''block'') \<and>
   getCurrentSettings 7
     (onLocationChange 0 7 [7 \<mapsto> [''cdn.tracker.com'' \<mapsto> JStr ''block'']]) ''cleared'' = None \<and>
   cleared_sentinel ''cleared'' = Some (JBool True) \<and>
   getCurrentSettings 7
     (onLocationChange 0 7 [7 \<mapsto> [''cdn.tracker.com'' \<mapsto> JStr ''block'']]) \<noteq> cleared_sentinel"
proof -
  have a: "getCurrentSettings 7
     (onLocationChange 0 7 [7 \<mapsto> [''cdn.tracker.com'' \<mapsto> JStr ''block'']]) = Map.empty"
    by (simp add: getCurrentSettings_def onLocationChange_def clearSettingsListener_def)
  have b: "cleared_sentinel ''cleared'' = Some (JBool True)"
    by (simp add: cleared_sentinel_def)
  have c: "getCurrentSettings 7 [7 \<mapsto> [''cdn.tracker.com'' \<mapsto> JStr ''block'']] ''cdn.tracker.com'' =
     Some (JStr ''block'')"
    by (simp add: getCurrentSettings_def)
  have d: "(Map.empty :: settings_table) \<noteq> cleared_sentinel"
    using b by (metis option.distinct(1))
  from a b c d show ?thesis by simp
qed

section \<open>Committing staged edits\<close>

lemma applySetting_unknown:
  "act \<notin> {''reset'', ''block'', ''cookieblock'', ''noaction''} \<Longrightarrow> applySetting (orig, act) st = st"
  by (simp add: applySetting_def)

lemma spec_commit_step:
  "spec_commit ((orig, tag) # rest) st = spec_commit rest (applySetting (orig, tag) st)"
  by (simp add: applySetting_def clearOrigin_def addRed_def addYellow_def addGreen_def)

lemma fold_applySetting_spec: "fold applySetting xs st = spec_commit xs st"
proof (induction xs arbitrary: st)
  case Nil
  then show ?case by simp
next
  case (Cons x xs)
  obtain orig tag where x: "x = (orig, tag)" by (cases x)
  have "fold applySetting (x # xs) st = fold applySetting xs (applySetting x st)"
    by simp
  also have "\<dots> = spec_commit xs (applySetting x st)"
    by (rule Cons.IH)
  also have "\<dots> = spec_commit (x # xs) st"
    unfolding x by (rule spec_commit_step [symmetric])
  finally show ?case .
qed

lemma handleNewSettings_spec:
  "storage (snd (handleNewSettings settings s)) = spec_commit settings (storage s)"
proof (cases "settings = []")
  case True
  then show ?thesis by (simp add: handleNewSettings_def)
next
  case False
  then show ?thesis by (simp add: handleNewSettings_def fold_applySetting_spec)
qed




lemma setOwn_keys: "set (map fst (setOwn xs k v)) = insert k (set (map fst xs))"
proof (induction xs)
  case Nil
  then show ?case by simp
next
  case (Cons x xs)
  obtain k' v' where x: "x = (k', v')" by (cases x)
  show ?case
  proof (cases "k' = k")
    case True
    with x show ?thesis by simp
  next
    case False
    with x have "set (map fst (setOwn (x # xs) k v)) = insert k' (set (map fst (setOwn xs k v)))"
      by simp
    also have "\<dots> = insert k' (insert k (set (map fst xs)))"
      by (simp only: Cons.IH)
    finally show ?thesis using x by auto
  qed
qed

lemma setOwn_distinct:
  "distinct (map fst xs) \<Longrightarrow> distinct (map fst (setOwn xs k v))"
proof (induction xs)
  case Nil
  then show ?case by simp
next
  case (Cons x xs)
  obtain k' v' where x: "x = (k', v')" by (cases x)
  from Cons.prems x have n: "k' \<notin> set (map fst xs)" and d: "distinct (map fst xs)"
    by auto
  show ?case
  proof (cases "k' = k")
    case True
    with x n d show ?thesis by simp
  next
    case False
    with n have "k' \<notin> set (map fst (setOwn xs k v))"
      unfolding setOwn_keys by simp
    with False x Cons.IH[OF d] show ?thesis by simp
  qed
qed

text \<open>Assignment keeps the staging area an object: each key once.\<close>

lemma assign_distinct:
  "distinct (map fst xs) \<Longrightarrow> distinct (map fst (assign xs k v))"
  by (simp add: assign_def setOwn_distinct)

lemma assign_proto: "assign xs ''__proto__'' v = xs"
  by (simp add: assign_def)







text \<open>
  C8. A staged entry whose action is none of \<^verbatim>\<open>reset\<close>, \<^verbatim>\<open>block\<close>,
  \<^verbatim>\<open>cookieblock\<close>, \<^verbatim>\<open>noaction\<close> is skipped and all the other entries are applied:
  the rule lists after the commit are what the commit step of the specification makes of
  the other entries, before and after it, in their order. So they are those of the commit
  without that entry, and a commit of that entry alone leaves the rule lists as they were.
\<close>

theorem C8_unknown_action_skipped:
  assumes "act \<notin> {''reset'', ''block'', ''cookieblock'', ''noaction''}"
  shows "storage (snd (handleNewSettings (xs @ (orig, act) # ys) s)) =
           spec_commit (xs @ ys) (storage s) \<and>
         storage (snd (handleNewSettings (xs @ (orig, act) # ys) s)) =
           storage (snd (handleNewSettings (xs @ ys) s)) \<and>
         storage (snd (handleNewSettings [(orig, act)] s)) = storage s"
proof -
  have skip: "applySetting (orig, act) st = st" for st
    using assms by (rule applySetting_unknown)
  have a: "storage (snd (handleNewSettings (xs @ (orig, act) # ys) s)) =
      fold applySetting (xs @ ys) (storage s)"
    by (simp add: handleNewSettings_def skip)
  have b: "storage (snd (handleNewSettings (xs @ ys) s)) = fold applySetting (xs @ ys) (storage s)"
    by (cases "xs @ ys") (simp_all add: handleNewSettings_def del: fold_append)
  have c: "storage (snd (handleNewSettings [(orig, act)] s)) = storage s"
    by (simp add: handleNewSettings_def skip)
  from a b c show ?thesis by (simp only: fold_applySetting_spec)
qed

text \<open>
  \<^verbatim>\<open>userblock\<close> is a ledger tag, not an action of the panel; the edits around it, one
  of each kind, are applied.
\<close>

theorem C8_unknown_action_skipped_witness:
  "storage (snd (handleNewSettings
      [(''a.example'', ''block''), (''r.example'', ''reset''), (''b.example'', ''userblock''),
       (''y.example'', ''cookieblock''), (''c.example'', ''noaction'')]
      (state_of (empty_storage\<lparr>userRed := {''r.example''}\<rparr>)))) =
   empty_storage\<lparr>userRed := {''a.example''}, userYellow := {''y.example''},
     userGreen := {''c.example''}\<rparr> \<and>
   storage (snd (handleNewSettings [(''b.example'', ''userblock'')] (state_of empty_storage))) =
     empty_storage"
proof -
  have a: "''userblock'' \<notin> {''reset'', ''block'', ''cookieblock'', ''noaction''}"
    by simp
  have b: "spec_commit
      ([(''a.example'', ''block''), (''r.example'', ''reset'')] @
       [(''y.example'', ''cookieblock''), (''c.example'', ''noaction'')])
      (storage (state_of (empty_storage\<lparr>userRed := {''r.example''}\<rparr>))) =
     empty_storage\<lparr>userRed := {''a.example''}, userYellow := {''y.example''},
       userGreen := {''c.example''}\<rparr>"
    by (simp add: state_of_def empty_storage_def insert_Diff_if)
  have c: "storage (state_of empty_storage) = empty_storage"
    by (simp add: state_of_def)
  from C8_unknown_action_skipped
    [OF a, of "[(''a.example'', ''block''), (''r.example'', ''reset'')]" "''b.example''"
      "[(''y.example'', ''cookieblock''), (''c.example'', ''noaction'')]"
      "state_of (empty_storage\<lparr>userRed := {''r.example''}\<rparr>)"] b
  have 1: "storage (snd (handleNewSettings
      [(''a.example'', ''block''), (''r.example'', ''reset''), (''b.example'', ''userblock''),
       (''y.example'', ''cookieblock''), (''c.example'', ''noaction'')]
      (state_of (empty_storage\<lparr>userRed := {''r.example''}\<rparr>)))) =
   empty_storage\<lparr>userRed := {''a.example''}, userYellow := {''y.example''},
     userGreen := {''c.example''}\<rparr>"
    by simp
  from C8_unknown_action_skipped [OF a, of "[]" "''b.example''" "[]" "state_of empty_storage"] c
  have 2: "storage (snd (handleNewSettings [(''b.example'', ''userblock'')] (state_of empty_storage))) =
     empty_storage"
    by simp
  from 1 2 show ?thesis by blast
qed

section \<open>User cookie-block\<close>

text \<open>
  C7, as amended. Membership is what the code tests with \<^verbatim>\<open>in\<close>. When the lookup of
  the base domain returns and the host or its base domain is in \<^verbatim>\<open>userYellow\<close>,
  \<^verbatim>\<open>isUserYellowRequest\<close> returns true; it emits \<^verbatim>\<open>usercookieblock\<close> for the host
  when it was given a window, and nothing otherwise; it clobbers the cookie of the host
  when the match is by base domain only, and not when the host itself is in the list.
  When the lookup throws, \<^verbatim>\<open>isUserYellowRequest\<close> throws and changes nothing, whether
  or not the host is in the list: the lookup comes first.
\<close>

theorem C7_userYellow_request:
  "(getBaseDomain P loc = Returns d \<and>
    (js_in P (host loc) (userYellow (storage s)) \<or> js_in P d (userYellow (storage s))) \<longrightarrow>
      fst (isUserYellowRequest P loc window s) = Returns True \<and>
      eventsSince s (snd (isUserYellowRequest P loc window s)) =
        (case window of None \<Rightarrow> [] | Some w \<Rightarrow> [(''usercookieblock'', window, host loc)]) \<and>
      clobberedSince s (snd (isUserYellowRequest P loc window s)) =
        (if js_in P (host loc) (userYellow (storage s)) then [] else [host loc])) \<and>
   (getBaseDomain P loc = Throws e \<longrightarrow> isUserYellowRequest P loc window s = (Throws e, s))"
  by (cases window) (auto simp: chain_defs)

text \<open>
  The base domain \<^verbatim>\<open>tracker.com\<close> is in \<^verbatim>\<open>userYellow\<close>, the host is not. And a
  URI without a host, for which the lookup throws, with that empty host in the list.
\<close>

theorem C7_userYellow_request_witness:
  "fst (isUserYellowRequest demo_platform tracker_uri (Some site_window)
          (state_of (empty_storage\<lparr>userYellow := {''tracker.com''}\<rparr>))) = Returns True \<and>
   eventsSince (state_of (empty_storage\<lparr>userYellow := {''tracker.com''}\<rparr>))
     (snd (isUserYellowRequest demo_platform tracker_uri (Some site_window)
          (state_of (empty_storage\<lparr>userYellow := {''tracker.com''}\<rparr>)))) =
     [(''usercookieblock'', Some site_window, ''cdn.tracker.com'')] \<and>
   clobberedSince (state_of (empty_storage\<lparr>userYellow := {''tracker.com''}\<rparr>))
     (snd (isUserYellowRequest demo_platform tracker_uri (Some site_window)
          (state_of (empty_storage\<lparr>userYellow := {''tracker.com''}\<rparr>)))) = [''cdn.tracker.com''] \<and>
   isUserYellowRequest demo_platform blank_uri (Some site_window)
       (state_of (empty_storage\<lparr>userYellow := {[]}\<rparr>)) =
     (Throws ExternalError, state_of (empty_storage\<lparr>userYellow := {[]}\<rparr>))"
proof -
  have bd: "getBaseDomain demo_platform tracker_uri = Returns ''tracker.com''"
    by (simp add: getBaseDomain_def demo_defs)
  have y: "js_in demo_platform ''tracker.com''
       (userYellow (storage (state_of (empty_storage\<lparr>userYellow := {''tracker.com''}\<rparr>)))) \<and>
     \<not> js_in demo_platform (host tracker_uri)
       (userYellow (storage (state_of (empty_storage\<lparr>userYellow := {''tracker.com''}\<rparr>))))"
    by (simp add: js_in_def demo_defs)
  have h: "host tracker_uri = ''cdn.tracker.com''"
    by (simp add: tracker_uri_def)
  have th: "getBaseDomain demo_platform blank_uri = Throws ExternalError"
    by (simp add: getBaseDomain_def demo_defs)
  from C7_userYellow_request
    [where P = demo_platform and loc = tracker_uri and d = "''tracker.com''"
       and s = "state_of (empty_storage\<lparr>userYellow := {''tracker.com''}\<rparr>)"
       and window = "Some site_window"] bd y
  have 1: "fst (isUserYellowRequest demo_platform tracker_uri (Some site_window)
          (state_of (empty_storage\<lparr>userYellow := {''tracker.com''}\<rparr>))) = Returns True \<and>
   eventsSince (state_of (empty_storage\<lparr>userYellow := {''tracker.com''}\<rparr>))
     (snd (isUserYellowRequest demo_platform tracker_uri (Some site_window)
          (state_of (empty_storage\<lparr>userYellow := {''tracker.com''}\<rparr>)))) =
     [(''usercookieblock'', Some site_window, ''cdn.tracker.com'')] \<and>
   clobberedSince (state_of (empty_storage\<lparr>userYellow := {''tracker.com''}\<rparr>))
     (snd (isUserYellowRequest demo_platform tracker_uri (Some site_window)
          (state_of (empty_storage\<lparr>userYellow := {''tracker.com''}\<rparr>)))) = [''cdn.tracker.com'']"
    by (simp add: h)
  from C7_userYellow_request
    [where P = demo_platform and loc = blank_uri and e = ExternalError
       and s = "state_of (empty_storage\<lparr>userYellow := {[]}\<rparr>)"
       and window = "Some site_window"] th
  have 2: "isUserYellowRequest demo_platform blank_uri (Some site_window)
       (state_of (empty_storage\<lparr>userYellow := {[]}\<rparr>)) =
     (Throws ExternalError, state_of (empty_storage\<lparr>userYellow := {[]}\<rparr>))"
    by blast
  from 1 2 show ?thesis by blast
qed

text \<open>
  C7 as stated fails: with the host itself in \<^verbatim>\<open>userYellow\<close> no cookie is clobbered,
  and without a window no event is emitted.
\<close>

theorem C7_counterexample:
  "host tracker_uri \<in> userYellow (empty_storage\<lparr>userYellow := {''cdn.tracker.com''}\<rparr>) \<and>
   fst (isUserYellowRequest demo_platform tracker_uri (Some site_window)
          (state_of (empty_storage\<lparr>userYellow := {''cdn.tracker.com''}\<rparr>))) = Returns True \<and>
   clobbered (snd (isUserYellowRequest demo_platform tracker_uri (Some site_window)
          (state_of (empty_storage\<lparr>userYellow := {''cdn.tracker.com''}\<rparr>)))) = [] \<and>
   emitted (snd (isUserYellowRequest demo_platform tracker_uri None
          (state_of (empty_storage\<lparr>userYellow := {''cdn.tracker.com''}\<rparr>)))) = []"
  by (simp add: chain_defs js_in_def demo_defs)

section \<open>Repeating a decision\<close>

lemma shouldLoad_storage: "storage (snd (shouldLoad P ct loc node s)) = storage s"
  unfolding shouldLoad_def Let_def
  by (cases "isBlockableRequest P loc (windowOfNode node) None ct"; cases "windowOfNode node";
      cases "tpu_getBaseDomain P loc"; simp add: chain_defs)

text \<open>
  C9. \<^verbatim>\<open>shouldLoad\<close> leaves the rule lists as they are, and its verdict (or exception)
  and the events it emits depend on the state through the rule lists only. So a second call
  for the same request and context, in any state with the same rule lists, in particular
  the state the first call left, gives the same verdict and emits the same events.
\<close>

theorem C9_shouldLoad_repeatable:
  assumes "storage s' = storage s"
  shows "fst (shouldLoad P ct loc node s') = fst (shouldLoad P ct loc node s) \<and>
         eventsSince s' (snd (shouldLoad P ct loc node s')) =
           eventsSince s (snd (shouldLoad P ct loc node s)) \<and>
         storage (snd (shouldLoad P ct loc node s)) = storage s"
proof -
  have "fst (shouldLoad P ct loc node s') = fst (shouldLoad P ct loc node s) \<and>
         eventsSince s' (snd (shouldLoad P ct loc node s')) =
           eventsSince s (snd (shouldLoad P ct loc node s))"
    using assms unfolding shouldLoad_def Let_def
    by (cases "isBlockableRequest P loc (windowOfNode node) None ct"; cases "windowOfNode node";
        cases "tpu_getBaseDomain P loc"; simp add: chain_defs)
  then show ?thesis by (simp add: shouldLoad_storage)
qed

text \<open>The blocked request of the scenario, evaluated twice in a row.\<close>

theorem C9_shouldLoad_repeatable_witness:
  "fst (shouldLoad demo_platform TYPE_SCRIPT tracker_uri (Some (DOMWindow site_window))
     (snd (shouldLoad demo_platform TYPE_SCRIPT tracker_uri (Some (DOMWindow site_window))
        (state_of blocked_storage)))) =
   fst (shouldLoad demo_platform TYPE_SCRIPT tracker_uri (Some (DOMWindow site_window))
        (state_of blocked_storage)) \<and>
   eventsSince
     (snd (shouldLoad demo_platform TYPE_SCRIPT tracker_uri (Some (DOMWindow site_window))
        (state_of blocked_storage)))
     (snd (shouldLoad demo_platform TYPE_SCRIPT tracker_uri (Some (DOMWindow site_window))
       (snd (shouldLoad demo_platform TYPE_SCRIPT tracker_uri (Some (DOMWindow site_window))
          (state_of blocked_storage))))) =
   eventsSince (state_of blocked_storage)
     (snd (shouldLoad demo_platform TYPE_SCRIPT tracker_uri (Some (DOMWindow site_window))
        (state_of blocked_storage)))"
proof -
  have st: "storage (snd (shouldLoad demo_platform TYPE_SCRIPT tracker_uri
       (Some (DOMWindow site_window)) (state_of blocked_storage))) =
     storage (state_of blocked_storage)"
    by (simp add: policy_defs demo_defs)
  show ?thesis
    using C9_shouldLoad_repeatable [OF st] by blast
qed

section \<open>User block without a window\<close>

text \<open>
  C10, as amended. For a host in \<^verbatim>\<open>userRed\<close>, \<^verbatim>\<open>isUserRedRequest\<close> returns true
  when it is given no window, and so does \<^verbatim>\<open>shouldBlockRequest\<close>, which asks it first;
  the state is unchanged: no event, no ledger entry.
\<close>

theorem C10_userRed_without_window:
  assumes red: "host loc \<in> userRed (storage s)"
  shows "isUserRedRequest P loc None s = (True, s) \<and>
         shouldBlockRequest P loc None s = (Returns True, s)"
  using red by (simp add: isUserRedRequest_def shouldBlockRequest_def js_in_own)

theorem C10_userRed_without_window_witness:
  "isUserRedRequest demo_platform tracker_uri None (state_of red_storage) =
     (True, state_of red_storage) \<and>
   shouldBlockRequest demo_platform tracker_uri None (state_of red_storage) =
     (Returns True, state_of red_storage)"
proof -
  have red: "host tracker_uri \<in> userRed (storage (state_of red_storage))"
    by (simp add: demo_defs)
  show ?thesis
    using C10_userRed_without_window [OF red, of demo_platform] by simp
qed

text \<open>
  C10 as stated fails: \<^verbatim>\<open>shouldLoad\<close> does not reject a request to a host in
  \<^verbatim>\<open>userRed\<close> when the load context gives no window. A document load is accepted
  as not blockable; for any other content type \<^verbatim>\<open>isBlockableRequest\<close> reads
  \<^verbatim>\<open>window.top\<close> and throws.
\<close>

theorem C10_counterexample:
  "host tracker_uri \<in> userRed (storage (state_of red_storage)) \<and>
   windowOfNode None = None \<and>
   windowOfNode (Some (OtherContext False)) = None \<and>
   fst (shouldLoad demo_platform TYPE_DOCUMENT tracker_uri None (state_of red_storage)) =
     Returns ACCEPT \<and>
   fst (shouldLoad demo_platform TYPE_SCRIPT tracker_uri None (state_of red_storage)) =
     Throws TypeError \<and>
   fst (shouldLoad demo_platform TYPE_SCRIPT tracker_uri (Some (OtherContext False))
     (state_of red_storage)) = Throws TypeError"
  by (simp add: policy_defs demo_defs)

end
